theory Spec2Isabelle
  imports Main "HOL-Library.Word"
begin

section \<open>Common ground of the two servers\<close>

text \<open>
  The repository holds two Express servers over PostgreSQL: a key service
  (\<^verbatim>\<open>/api/generate-key\<close>, \<^verbatim>\<open>/api/verify\<close>, ...) and a license server
  (\<^verbatim>\<open>/api/license/validate\<close>, \<^verbatim>\<open>/api/license/check\<close>, \<^verbatim>\<open>/api/admin/...\<close>).
  Each handler is embedded as a function from the request and the pool to the response
  and the pool afterwards.

  Strings are byte lists in UTF-8, so the Polish letters of the source's messages are
  written as their two bytes. Timestamps are integers (milliseconds). A request field or
  header that is absent (\<^verbatim>\<open>undefined\<close>) is \<open>None\<close>; the fields are read at the
  type the handler expects (a string, a number) and fit their columns, and the SERIAL
  \<^verbatim>\<open>id\<close> columns, which no handler compares or sets, are left out of the rows.
\<close>

type_synonym timestamp = int

datatype json =
    JNull
  | JBool bool
  | JNum int
  | JStr string
  | JDate timestamp
  | JArr "json list"
  | JObj "(string \<times> json) list"

record response =
  http_status :: nat
  json_body :: json

text \<open>\<^verbatim>\<open>res.json(obj)\<close> answers 200; \<^verbatim>\<open>res.status(n).json(obj)\<close> answers \<open>n\<close>.\<close>

definition res_json :: "(string \<times> json) list \<Rightarrow> response" where
  "res_json obj = \<lparr>http_status = 200, json_body = JObj obj\<rparr>"

definition res_status_json :: "nat \<Rightarrow> (string \<times> json) list \<Rightarrow> response" where
  "res_status_json n obj = \<lparr>http_status = n, json_body = JObj obj\<rparr>"

text \<open>Reading a member of the response object, as a client does.\<close>

fun member :: "response \<Rightarrow> string \<Rightarrow> json option" where
  "member r k = (case json_body r of JObj obj \<Rightarrow> map_of obj k | _ \<Rightarrow> None)"

text \<open>
  JavaScript's \<^verbatim>\<open>!x\<close> on a value that is a string or \<^verbatim>\<open>undefined\<close>: true for
  \<^verbatim>\<open>undefined\<close> and for the empty string. \<^verbatim>\<open>x || d\<close> is \<open>d\<close> exactly then.
\<close>

fun falsy :: "string option \<Rightarrow> bool" where
  "falsy None = True"
| "falsy (Some s) = (s = [])"

fun or_else :: "string option \<Rightarrow> string \<Rightarrow> string" where
  "or_else None d = d"
| "or_else (Some s) d = (if s = [] then d else s)"

text \<open>
  The pool. \<^verbatim>\<open>pool.query\<close> sends one statement to the database and either resolves
  with its result or rejects with an error. The statement's own effect is a function
  on the tables (\<open>Inl\<close> a violated UNIQUE or NOT NULL). Every other refusal (no
  connection, a missing table, a value the column does not take) is not decided by the
  program: \<open>outage n = Some msg\<close> says that the \<open>n\<close>-th statement ever sent through
  the pool is rejected with message \<open>msg\<close> and leaves the tables alone. \<open>issued\<close>
  counts the statements sent.
\<close>

record 'd pool =
  db :: 'd
  issued :: nat

type_synonym ('d, 'r) statement = "'d \<Rightarrow> string + 'r \<times> 'd"

definition pool_query ::
  "(nat \<Rightarrow> string option) \<Rightarrow> ('d, 'r) statement \<Rightarrow> 'd pool \<Rightarrow> (string + 'r) \<times> 'd pool" where
  "pool_query outage stmt p =
     (let p' = p\<lparr>issued := Suc (issued p)\<rparr> in
      case outage (issued p) of
        Some msg \<Rightarrow> (Inl msg, p')
      | None \<Rightarrow>
          (case stmt (db p) of
             Inl msg \<Rightarrow> (Inl msg, p')
           | Inr (r, d) \<Rightarrow> (Inr r, p'\<lparr>db := d\<rparr>)))"

text \<open>
  \<^verbatim>\<open>await pool.query(...)\<close> inside \<^verbatim>\<open>try { ... } catch (err) { ... }\<close>: a rejection
  leaves the block for the handler's \<open>catch\<close>, a result goes on with the rest.
\<close>

definition await_query ::
  "(nat \<Rightarrow> string option) \<Rightarrow> ('d, 'r) statement \<Rightarrow> 'd pool \<Rightarrow>
   (string \<Rightarrow> response) \<Rightarrow> ('r \<Rightarrow> 'd pool \<Rightarrow> response \<times> 'd pool) \<Rightarrow> response \<times> 'd pool" where
  "await_query outage stmt p catch rest =
     (case pool_query outage stmt p of
        (Inl msg, p') \<Rightarrow> (catch msg, p')
      | (Inr r, p') \<Rightarrow> rest r p')"

text \<open>A database that carries out every statement.\<close>

definition reliable :: "nat \<Rightarrow> string option" where
  "reliable n = None"

definition Blad_serwera :: string where
  "Blad_serwera = ''B'' @ [CHR 0xC5, CHR 0x82, CHR 0xC4, CHR 0x85] @ ''d serwera''"

section \<open>The key service\<close>

subsection \<open>Table\<close>

text \<open>
  \<^verbatim>\<open>licenses (id SERIAL PRIMARY KEY, license_key TEXT UNIQUE NOT NULL,
  active BOOLEAN DEFAULT true, created_at TIMESTAMP DEFAULT CURRENT_TIMESTAMP)\<close>.
  Rows are kept in insertion order; no statement of the program writes NULL into
  \<^verbatim>\<open>active\<close>.
\<close>

record key_row =
  key_license_key :: string
  active :: bool
  key_created_at :: timestamp

type_synonym key_db = "key_row list"

text \<open>PostgreSQL's message for a violated \<^verbatim>\<open>UNIQUE\<close> on \<^verbatim>\<open>licenses.license_key\<close>.\<close>

definition duplicate_key :: string where
  "duplicate_key =
     ''duplicate key value violates unique constraint '' @ [CHR 0x22] @
     ''licenses_license_key_key'' @ [CHR 0x22]"

text \<open>\<^verbatim>\<open>INSERT INTO licenses (license_key, active) VALUES ($1, true)\<close>\<close>

definition insert_key :: "string \<Rightarrow> timestamp \<Rightarrow> (key_db, unit) statement" where
  "insert_key k ts rows =
     (if k \<in> set (map key_license_key rows) then Inl duplicate_key
      else Inr ((), rows @ [\<lparr>key_license_key = k, active = True, key_created_at = ts\<rparr>]))"

text \<open>\<^verbatim>\<open>SELECT * FROM licenses WHERE license_key = $1\<close>\<close>

definition select_key :: "string \<Rightarrow> (key_db, key_row list) statement" where
  "select_key k rows = Inr (filter (\<lambda>r. key_license_key r = k) rows, rows)"

subsection \<open>Key generation\<close>

text \<open>
  \<^verbatim>\<open>crypto.randomBytes(16).toString('hex').toUpperCase()\<close>. The generator's output
  is an input of the model: \<open>entropy i\<close> is the \<open>i\<close>-th byte it delivers.
\<close>

definition randomBytes :: "nat \<Rightarrow> (nat \<Rightarrow> 8 word) \<Rightarrow> 8 word list" where
  "randomBytes n entropy = map entropy [0..<n]"

definition hex_digit :: "nat \<Rightarrow> char" where
  "hex_digit n = ''0123456789abcdef'' ! (n mod 16)"

definition toString_hex :: "8 word list \<Rightarrow> string" where
  "toString_hex bs = concat (map (\<lambda>b. [hex_digit (unat b div 16), hex_digit (unat b mod 16)]) bs)"

text \<open>\<^verbatim>\<open>toUpperCase\<close> on ASCII text: the letters a to z move to A to Z.\<close>

definition upper_char :: "char \<Rightarrow> char" where
  "upper_char c =
     (let n = (of_char c :: nat) in if 97 \<le> n \<and> n \<le> 122 then char_of (n - 32) else c)"

definition toUpperCase :: "string \<Rightarrow> string" where
  "toUpperCase s = map upper_char s"

definition Sprawdz_hint :: string where
  "Sprawdz_hint = ''Sprawd'' @ [CHR 0xC5, CHR 0xBA] @ '' czy tabela licenses istnieje''"

definition generate_key ::
  "(nat \<Rightarrow> string option) \<Rightarrow> (nat \<Rightarrow> 8 word) \<Rightarrow> timestamp \<Rightarrow> key_db pool \<Rightarrow> response \<times> key_db pool" where
  "generate_key outage entropy ts p =
     (let key = toUpperCase (toString_hex (randomBytes 16 entropy)) in
      await_query outage (insert_key key ts) p
        (\<lambda>msg. res_status_json 500 [(''error'', JStr msg), (''hint'', JStr Sprawdz_hint)])
        (\<lambda>_ p'. (res_json [(''license_key'', JStr key),
                            (''message'', JStr ''Klucz zapisany w bazie danych'')], p')))"

subsection \<open>Verification\<close>

definition verify ::
  "(nat \<Rightarrow> string option) \<Rightarrow> string option \<Rightarrow> key_db pool \<Rightarrow> response \<times> key_db pool" where
  "verify outage license_key p =
     (case license_key of
        None \<Rightarrow> (res_json [(''valid'', JBool False), (''message'', JStr ''Brak klucza licencji'')], p)
      | Some k \<Rightarrow>
          if k = [] then
            (res_json [(''valid'', JBool False), (''message'', JStr ''Brak klucza licencji'')], p)
          else
            await_query outage (select_key k) p
              (\<lambda>msg. res_status_json 500
                 [(''valid'', JBool False), (''message'', JStr (Blad_serwera @ '': '' @ msg))])
              (\<lambda>rows p'.
                 case rows of
                   [] \<Rightarrow>
                     (res_json [(''valid'', JBool False),
                                (''message'', JStr ''Licencja nie istnieje w systemie'')], p')
                 | license # _ \<Rightarrow>
                     if \<not> active license then
                       (res_json [(''valid'', JBool False),
                                  (''message'', JStr (''Licencja zosta'' @ [CHR 0xC5, CHR 0x82] @
                                     ''a dezaktywowana''))], p')
                     else
                       (res_json [(''valid'', JBool True),
                                  (''message'', JStr ''Licencja aktywna''),
                                  (''license_key'', JStr (key_license_key license))], p')))"

section \<open>The license server\<close>

subsection \<open>Tables\<close>

text \<open>
  \<^verbatim>\<open>licenses\<close>: \<^verbatim>\<open>license_key\<close> is UNIQUE NOT NULL and \<^verbatim>\<open>owner\<close> is NOT NULL;
  \<^verbatim>\<open>status\<close> (DEFAULT 'ACTIVE') and \<^verbatim>\<open>max_servers\<close> (DEFAULT 1) are never written
  NULL by any statement of the program; the other columns can be NULL.
\<close>

record license =
  license_key :: string
  owner :: string
  email :: "string option"
  status :: string
  created_at :: timestamp
  expires_at :: "timestamp option"
  max_servers :: int
  last_check :: "timestamp option"
  reason :: "string option"

text \<open>\<^verbatim>\<open>license_servers\<close>, with UNIQUE(license_key, server_id).\<close>

record license_server =
  srv_license_key :: string
  server_id :: string
  server_ip :: "string option"
  server_port :: "int option"
  plugin_version :: "string option"
  minecraft_version :: "string option"
  online_players :: "int option"
  max_players :: "int option"
  last_seen :: timestamp

text \<open>\<^verbatim>\<open>license_logs\<close>: no constraint at all.\<close>

record license_log =
  log_license_key :: "string option"
  action :: string
  details :: string
  log_timestamp :: timestamp

record database =
  licenses :: "license list"
  license_servers :: "license_server list"
  license_logs :: "license_log list"

subsection \<open>Statements\<close>

text \<open>\<^verbatim>\<open>INSERT INTO license_logs (license_key, action, details) VALUES ($1, $2, $3)\<close>\<close>

definition insert_log ::
  "string option \<Rightarrow> string \<Rightarrow> string \<Rightarrow> timestamp \<Rightarrow> (database, unit) statement" where
  "insert_log k a det ts d =
     Inr ((), d\<lparr>license_logs := license_logs d @
        [\<lparr>log_license_key = k, action = a, details = det, log_timestamp = ts\<rparr>]\<rparr>)"

text \<open>\<^verbatim>\<open>SELECT * FROM licenses WHERE license_key = $1\<close>\<close>

definition select_license :: "string \<Rightarrow> (database, license list) statement" where
  "select_license k d = Inr (filter (\<lambda>l. license_key l = k) (licenses d), d)"

text \<open>\<^verbatim>\<open>UPDATE licenses SET status = $1 WHERE license_key = $2\<close>\<close>

definition update_status :: "string \<Rightarrow> string \<Rightarrow> (database, unit) statement" where
  "update_status st k d =
     Inr ((), d\<lparr>licenses := map (\<lambda>l. if license_key l = k then l\<lparr>status := st\<rparr> else l) (licenses d)\<rparr>)"

text \<open>\<^verbatim>\<open>SELECT COUNT(*) FROM license_servers WHERE license_key = $1\<close>\<close>

definition count_servers :: "string \<Rightarrow> (database, nat) statement" where
  "count_servers k d = Inr (length (filter (\<lambda>s. srv_license_key s = k) (license_servers d)), d)"

text \<open>\<^verbatim>\<open>SELECT * FROM license_servers WHERE license_key = $1 AND server_id = $2\<close>\<close>

definition select_server :: "string \<Rightarrow> string \<Rightarrow> (database, license_server list) statement" where
  "select_server k sid d =
     Inr (filter (\<lambda>s. srv_license_key s = k \<and> server_id s = sid) (license_servers d), d)"

text \<open>
  \<^verbatim>\<open>INSERT INTO license_servers (...) VALUES ($1, ..., $8, CURRENT_TIMESTAMP)
  ON CONFLICT (license_key, server_id) DO UPDATE SET server_ip = $3, server_port = $4,
  plugin_version = $5, minecraft_version = $6, online_players = $7, max_players = $8,
  last_seen = CURRENT_TIMESTAMP\<close>
\<close>

definition upsert_server :: "license_server \<Rightarrow> (database, unit) statement" where
  "upsert_server new d =
     (let conflicts = (\<lambda>s. srv_license_key s = srv_license_key new \<and> server_id s = server_id new) in
      Inr ((), d\<lparr>license_servers :=
        (if list_ex conflicts (license_servers d) then
           map (\<lambda>s. if conflicts s then
                  s\<lparr>server_ip := server_ip new, server_port := server_port new,
                    plugin_version := plugin_version new,
                    minecraft_version := minecraft_version new,
                    online_players := online_players new, max_players := max_players new,
                    last_seen := last_seen new\<rparr>
                else s) (license_servers d)
         else license_servers d @ [new])\<rparr>))"

text \<open>\<^verbatim>\<open>UPDATE licenses SET last_check = CURRENT_TIMESTAMP WHERE license_key = $1\<close>\<close>

definition update_last_check :: "string \<Rightarrow> timestamp \<Rightarrow> (database, unit) statement" where
  "update_last_check k ts d =
     Inr ((), d\<lparr>licenses :=
        map (\<lambda>l. if license_key l = k then l\<lparr>last_check := Some ts\<rparr> else l) (licenses d)\<rparr>)"

text \<open>\<^verbatim>\<open>SELECT status, reason, expires_at FROM licenses WHERE license_key = $1\<close>\<close>

definition select_status ::
  "string \<Rightarrow> (database, (string \<times> string option \<times> timestamp option) list) statement" where
  "select_status k d =
     Inr (map (\<lambda>l. (status l, reason l, expires_at l))
            (filter (\<lambda>l. license_key l = k) (licenses d)), d)"

text \<open>
  \<^verbatim>\<open>INSERT INTO licenses (license_key, owner, email, expires_at, max_servers)
  VALUES ($1, $2, $3, $4, $5)\<close>: a NULL key or owner violates NOT NULL, a key already
  there violates UNIQUE.
\<close>

definition null_value :: "string \<Rightarrow> string" where
  "null_value column =
     ''null value in column '' @ [CHR 0x22] @ column @ [CHR 0x22] @ '' of relation '' @
     [CHR 0x22] @ ''licenses'' @ [CHR 0x22] @ '' violates not-null constraint''"

definition insert_license ::
  "string option \<Rightarrow> string option \<Rightarrow> string option \<Rightarrow> timestamp option \<Rightarrow> int \<Rightarrow> timestamp \<Rightarrow>
   (database, unit) statement" where
  "insert_license k ow em ex ms ts d =
     (case k of
        None \<Rightarrow> Inl (null_value ''license_key'')
      | Some key \<Rightarrow>
          (case ow of
             None \<Rightarrow> Inl (null_value ''owner'')
           | Some own \<Rightarrow>
               if key \<in> set (map license_key (licenses d)) then Inl duplicate_key
               else Inr ((), d\<lparr>licenses := licenses d @
                 [\<lparr>license_key = key, owner = own, email = em, status = ''ACTIVE'',
                   created_at = ts, expires_at = ex, max_servers = ms, last_check = None,
                   reason = None\<rparr>]\<rparr>)))"

text \<open>
  \<^verbatim>\<open>UPDATE licenses SET status = $1, reason = $2 WHERE license_key = $3\<close>; with a NULL
  key the comparison holds for no row.
\<close>

definition update_status_reason ::
  "string \<Rightarrow> string \<Rightarrow> string option \<Rightarrow> (database, unit) statement" where
  "update_status_reason st r k d =
     Inr ((), d\<lparr>licenses :=
        map (\<lambda>l. if Some (license_key l) = k then l\<lparr>status := st, reason := Some r\<rparr> else l)
          (licenses d)\<rparr>)"

text \<open>
  \<^verbatim>\<open>SELECT l.*, COUNT(DISTINCT ls.server_id) as active_servers FROM licenses l
  LEFT JOIN license_servers ls ON l.license_key = ls.license_key
  AND ls.last_seen > NOW() - INTERVAL '1 hour' GROUP BY l.id ORDER BY l.created_at DESC\<close>.
  Rows created at the same instant stay in insertion order.
\<close>

definition active_servers :: "database \<Rightarrow> timestamp \<Rightarrow> license \<Rightarrow> nat" where
  "active_servers d ts l =
     length (remdups (map server_id
       (filter (\<lambda>s. srv_license_key s = license_key l \<and> ts - 3600000 < last_seen s)
          (license_servers d))))"

definition select_licenses :: "timestamp \<Rightarrow> (database, (license \<times> nat) list) statement" where
  "select_licenses ts d =
     Inr (map (\<lambda>l. (l, active_servers d ts l))
            (sort_key (\<lambda>l. - created_at l) (licenses d)), d)"

subsection \<open>Logging\<close>

text \<open>\<^verbatim>\<open>logAction\<close>: the insertion's failure is caught and only printed.\<close>

definition logAction ::
  "(nat \<Rightarrow> string option) \<Rightarrow> timestamp \<Rightarrow> string option \<Rightarrow> string \<Rightarrow> string \<Rightarrow>
   database pool \<Rightarrow> database pool" where
  "logAction outage ts licenseKey act det p =
     snd (pool_query outage (insert_log licenseKey act det ts) p)"

subsection \<open>Messages\<close>

definition Licencja_wygasla :: string where
  "Licencja_wygasla = ''Licencja wygas'' @ [CHR 0xC5, CHR 0x82] @ ''a''"

definition Przekroczony_limit :: string where
  "Przekroczony_limit = ''Przekroczony limit server'' @ [CHR 0xC3, CHR 0xB3] @ ''w''"

definition Wylaczona_przez_admina :: string where
  "Wylaczona_przez_admina =
     ''Wy'' @ [CHR 0xC5, CHR 0x82, CHR 0xC4, CHR 0x85] @ ''czona przez admina''"

definition Licencja_wylaczona :: string where
  "Licencja_wylaczona = ''Licencja wy'' @ [CHR 0xC5, CHR 0x82, CHR 0xC4, CHR 0x85] @ ''czona''"

text \<open>A nullable value inside a template literal or a JSON object.\<close>

fun interpolate :: "string option \<Rightarrow> string" where
  "interpolate None = ''undefined''"
| "interpolate (Some s) = s"

fun json_string :: "string option \<Rightarrow> json" where
  "json_string None = JNull"
| "json_string (Some s) = JStr s"

fun json_date :: "timestamp option \<Rightarrow> json" where
  "json_date None = JNull"
| "json_date (Some t) = JDate t"

subsection \<open>\<^verbatim>\<open>POST /api/license/validate\<close>\<close>

record validate_body =
  req_license_key :: "string option"
  req_server_id :: "string option"
  req_server_ip :: "string option"
  req_server_port :: "int option"
  req_plugin_version :: "string option"
  req_minecraft_version :: "string option"
  req_online_players :: "int option"
  req_max_players :: "int option"

text \<open>
  \<open>now\<close> is the server's clock (\<^verbatim>\<open>new Date()\<close>), \<open>ts\<close> the database's
  (\<^verbatim>\<open>CURRENT_TIMESTAMP\<close>, one instant for the statements of a request).
\<close>

definition validate_failure :: "string \<Rightarrow> response" where
  "validate_failure msg = res_status_json 500 [(''valid'', JBool False), (''error'', JStr Blad_serwera)]"

definition missing_fields :: response where
  "missing_fields =
     res_status_json 400 [(''valid'', JBool False), (''error'', JStr ''Brak wymaganych danych'')]"

definition validate ::
  "(nat \<Rightarrow> string option) \<Rightarrow> timestamp \<Rightarrow> timestamp \<Rightarrow> validate_body \<Rightarrow> database pool \<Rightarrow>
   response \<times> database pool" where
  "validate outage now ts body p =
     (case req_license_key body of
        None \<Rightarrow> (missing_fields, p)
      | Some k \<Rightarrow>
     (case req_server_id body of
        None \<Rightarrow> (missing_fields, p)
      | Some sid \<Rightarrow>
      if k = [] \<or> sid = [] then (missing_fields, p)
      else
       await_query outage (select_license k) p validate_failure (\<lambda>licenseResult p1.
        case licenseResult of
          [] \<Rightarrow>
            (res_status_json 404
               [(''valid'', JBool False), (''error'', JStr ''Licencja nie znaleziona'')],
             logAction outage ts (Some k) ''VALIDATE_FAILED'' ''Licencja nie znaleziona'' p1)
        | license # _ \<Rightarrow>
            if status license \<noteq> ''ACTIVE'' then
              (res_status_json 403
                 [(''valid'', JBool False), (''active'', JBool False),
                  (''status'', JStr (status license)),
                  (''reason'', JStr (or_else (reason license) ''Licencja nieaktywna''))],
               logAction outage ts (Some k) ''VALIDATE_FAILED'' (''Status: '' @ status license) p1)
            else if (case expires_at license of None \<Rightarrow> False | Some e \<Rightarrow> e < now) then
              await_query outage (update_status ''EXPIRED'' k) p1 validate_failure (\<lambda>_ p2.
                (res_status_json 403
                   [(''valid'', JBool False), (''error'', JStr Licencja_wygasla)],
                 logAction outage ts (Some k) ''VALIDATE_FAILED'' Licencja_wygasla p2))
            else
              await_query outage (count_servers k) p1 validate_failure (\<lambda>serverCount p2.
              await_query outage (select_server k sid) p2 validate_failure (\<lambda>existingServer p3.
                if existingServer = [] \<and> max_servers license \<le> int serverCount then
                  (res_status_json 403
                     [(''valid'', JBool False), (''error'', JStr Przekroczony_limit)],
                   logAction outage ts (Some k) ''VALIDATE_FAILED'' Przekroczony_limit p3)
                else
                  await_query outage
                    (upsert_server
                       \<lparr>srv_license_key = k, server_id = sid,
                        server_ip = req_server_ip body, server_port = req_server_port body,
                        plugin_version = req_plugin_version body,
                        minecraft_version = req_minecraft_version body,
                        online_players = req_online_players body,
                        max_players = req_max_players body, last_seen = ts\<rparr>)
                    p3 validate_failure (\<lambda>_ p4.
                  await_query outage (update_last_check k ts) p4 validate_failure (\<lambda>_ p5.
                    (res_json
                       [(''valid'', JBool True), (''active'', JBool True),
                        (''status'', JStr (status license)),
                        (''owner'', JStr (owner license)),
                        (''expires'', json_date (expires_at license))],
                     logAction outage ts (Some k) ''VALIDATE_SUCCESS'' (''Server: '' @ sid) p5))))))))"

subsection \<open>\<^verbatim>\<open>POST /api/license/check\<close>\<close>

text \<open>The \<open>catch\<close> of this and of the administrator's handlers.\<close>

definition server_failure :: "string \<Rightarrow> response" where
  "server_failure msg = res_status_json 500 [(''error'', JStr Blad_serwera)]"

definition check ::
  "(nat \<Rightarrow> string option) \<Rightarrow> timestamp \<Rightarrow> string option \<Rightarrow> database pool \<Rightarrow>
   response \<times> database pool" where
  "check outage now key p =
     (case key of
        None \<Rightarrow> (res_status_json 400 [(''error'', JStr ''Brak klucza licencji'')], p)
      | Some k \<Rightarrow>
      if k = [] then (res_status_json 400 [(''error'', JStr ''Brak klucza licencji'')], p)
      else
        await_query outage (select_status k) p server_failure (\<lambda>rows p1.
          case rows of
            [] \<Rightarrow> (res_status_json 404 [(''error'', JStr ''Licencja nie znaleziona'')], p1)
          | (st, rs, ex) # _ \<Rightarrow>
              (res_json
                 [(''active'', JBool (st = ''ACTIVE'' \<and>
                     (case ex of None \<Rightarrow> True | Some e \<Rightarrow> now < e))),
                  (''status'', JStr st),
                  (''reason'', JStr (or_else rs [])),
                  (''expires'', json_date ex)], p1)))"

subsection \<open>The administrator's endpoints\<close>

text \<open>
  \<open>ADMIN_KEY\<close> is \<^verbatim>\<open>process.env.ADMIN_KEY\<close> and \<open>adminKey\<close> the request's
  \<^verbatim>\<open>x-admin-key\<close> header: each a string or \<^verbatim>\<open>undefined\<close>, compared with
  \<^verbatim>\<open>!==\<close>.
\<close>

definition unauthorized :: response where
  "unauthorized = res_status_json 401 [(''error'', JStr ''Brak autoryzacji'')]"

record create_body =
  new_license_key :: "string option"
  new_owner :: "string option"
  new_email :: "string option"
  new_expires_at :: "timestamp option"
  new_max_servers :: "int option"

text \<open>\<^verbatim>\<open>max_servers || 1\<close>: 1 when the number is absent or 0.\<close>

fun or_one :: "int option \<Rightarrow> int" where
  "or_one None = 1"
| "or_one (Some n) = (if n = 0 then 1 else n)"

definition admin_license_create ::
  "(nat \<Rightarrow> string option) \<Rightarrow> string option \<Rightarrow> timestamp \<Rightarrow> string option \<Rightarrow> create_body \<Rightarrow>
   database pool \<Rightarrow> response \<times> database pool" where
  "admin_license_create outage ADMIN_KEY ts adminKey body p =
     (if adminKey \<noteq> ADMIN_KEY then (unauthorized, p)
      else
        await_query outage
          (insert_license (new_license_key body) (new_owner body) (new_email body)
             (new_expires_at body) (or_one (new_max_servers body)) ts)
          p server_failure (\<lambda>_ p1.
            (res_json [(''success'', JBool True), (''message'', JStr ''Licencja utworzona'')],
             logAction outage ts (new_license_key body) ''LICENSE_CREATED''
               (''Owner: '' @ interpolate (new_owner body)) p1)))"

definition admin_license_disable ::
  "(nat \<Rightarrow> string option) \<Rightarrow> string option \<Rightarrow> timestamp \<Rightarrow> string option \<Rightarrow>
   string option \<Rightarrow> string option \<Rightarrow> database pool \<Rightarrow> response \<times> database pool" where
  "admin_license_disable outage ADMIN_KEY ts adminKey key rsn p =
     (if adminKey \<noteq> ADMIN_KEY then (unauthorized, p)
      else
        await_query outage
          (update_status_reason ''DISABLED'' (or_else rsn Wylaczona_przez_admina) key)
          p server_failure (\<lambda>_ p1.
            (res_json [(''success'', JBool True), (''message'', JStr Licencja_wylaczona)],
             logAction outage ts key ''LICENSE_DISABLED'' (or_else rsn ''Admin action'') p1)))"

text \<open>A row of the list, with \<^verbatim>\<open>COUNT\<close> delivered as a decimal string.\<close>

fun decimal :: "nat \<Rightarrow> string" where
  "decimal n =
     (if n < 10 then [''0123456789'' ! n]
      else decimal (n div 10) @ [''0123456789'' ! (n mod 10)])"

definition license_json :: "license \<times> nat \<Rightarrow> json" where
  "license_json row =
     (case row of (l, n) \<Rightarrow>
        JObj [(''license_key'', JStr (license_key l)), (''owner'', JStr (owner l)),
              (''email'', json_string (email l)), (''status'', JStr (status l)),
              (''created_at'', JDate (created_at l)),
              (''expires_at'', json_date (expires_at l)),
              (''max_servers'', JNum (max_servers l)),
              (''last_check'', json_date (last_check l)),
              (''reason'', json_string (reason l)),
              (''active_servers'', JStr (decimal n))])"

definition admin_licenses ::
  "(nat \<Rightarrow> string option) \<Rightarrow> string option \<Rightarrow> timestamp \<Rightarrow> string option \<Rightarrow>
   database pool \<Rightarrow> response \<times> database pool" where
  "admin_licenses outage ADMIN_KEY ts adminKey p =
     (if adminKey \<noteq> ADMIN_KEY then (unauthorized, p)
      else
        await_query outage (select_licenses ts) p server_failure (\<lambda>rows p1.
          (res_json [(''licenses'', JArr (map license_json rows))], p1)))"

section \<open>Sample data\<close>

definition sample_entropy :: "nat \<Rightarrow> 8 word" where
  "sample_entropy i = of_nat (17 * i + 10)"

definition sample_keys :: "key_db pool" where
  "sample_keys =
     \<lparr>db = [\<lparr>key_license_key = ''AAAA'', active = True, key_created_at = 10\<rparr>,
            \<lparr>key_license_key = ''BBBB'', active = False, key_created_at = 20\<rparr>],
      issued = 2\<rparr>"

definition sample_keys_full :: "key_db pool" where
  "sample_keys_full =
     \<lparr>db = [\<lparr>key_license_key = ''0A1B2C3D4E5F708192A3B4C5D6E7F809'', active = True,
              key_created_at = 10\<rparr>],
      issued = 1\<rparr>"

definition sample_body :: "string \<Rightarrow> validate_body" where
  "sample_body sid =
     \<lparr>req_license_key = Some ''ABC123'', req_server_id = Some sid,
      req_server_ip = Some ''10.0.0.7'', req_server_port = Some 25565,
      req_plugin_version = Some ''1.4'', req_minecraft_version = None,
      req_online_players = Some 3, req_max_players = Some 20\<rparr>"

definition sample_license :: license where
  "sample_license =
     \<lparr>license_key = ''ABC123'', owner = ''Ann'', email = None, status = ''ACTIVE'',
      created_at = 100, expires_at = Some 500, max_servers = 2, last_check = None,
      reason = None\<rparr>"

definition sample_server :: "string \<Rightarrow> license_server" where
  "sample_server sid =
     \<lparr>srv_license_key = ''ABC123'', server_id = sid, server_ip = Some ''10.0.0.1'',
      server_port = None, plugin_version = Some ''1.3'', minecraft_version = Some ''1.20'',
      online_players = Some 0, max_players = Some 10, last_seen = 150\<rparr>"

definition sample_pool :: "database pool" where
  "sample_pool =
     \<lparr>db = \<lparr>licenses = [sample_license],
            license_servers = [sample_server ''S1'', sample_server ''S2''],
            license_logs = []\<rparr>,
      issued = 0\<rparr>"

definition sample_create :: create_body where
  "sample_create =
     \<lparr>new_license_key = Some ''XYZ789'', new_owner = Some ''Bob'', new_email = None,
      new_expires_at = None, new_max_servers = None\<rparr>"

section \<open>The key service: generated keys\<close>

lemma nibble_cases:
  "(m::nat) < 16 \<Longrightarrow> m = 0 \<or> m = 1 \<or> m = 2 \<or> m = 3 \<or> m = 4 \<or> m = 5 \<or> m = 6 \<or> m = 7 \<or>
     m = 8 \<or> m = 9 \<or> m = 10 \<or> m = 11 \<or> m = 12 \<or> m = 13 \<or> m = 14 \<or> m = 15"
  by arith

lemma upper_hex_letters:
  "upper_char CHR ''a'' = CHR ''A''" "upper_char CHR ''b'' = CHR ''B''"
  "upper_char CHR ''c'' = CHR ''C''" "upper_char CHR ''d'' = CHR ''D''"
  "upper_char CHR ''e'' = CHR ''E''" "upper_char CHR ''f'' = CHR ''F''"
  by code_simp+

lemma upper_hex_digits:
  "upper_char CHR ''0'' = CHR ''0''" "upper_char CHR ''1'' = CHR ''1''"
  "upper_char CHR ''2'' = CHR ''2''" "upper_char CHR ''3'' = CHR ''3''"
  "upper_char CHR ''4'' = CHR ''4''" "upper_char CHR ''5'' = CHR ''5''"
  "upper_char CHR ''6'' = CHR ''6''" "upper_char CHR ''7'' = CHR ''7''"
  "upper_char CHR ''8'' = CHR ''8''" "upper_char CHR ''9'' = CHR ''9''"
  by code_simp+

lemma hex_digit_upper: "upper_char (hex_digit n) \<in> set ''0123456789ABCDEF''"
proof -
  have "n mod 16 < 16" by simp
  from nibble_cases [OF this] show ?thesis
    by (elim disjE) (simp_all add: hex_digit_def upper_hex_letters upper_hex_digits)
qed

lemma toUpperCase_hex_set: "set (toUpperCase (toString_hex bs)) \<subseteq> set ''0123456789ABCDEF''"
proof -
  have "\<forall>c \<in> set (toString_hex bs). \<exists>n. c = hex_digit n"
    by (auto simp: toString_hex_def)
  then show ?thesis
    unfolding toUpperCase_def using hex_digit_upper by (auto simp del: set_simps)
qed

lemma toUpperCase_hex_length: "length (toUpperCase (toString_hex bs)) = 2 * length bs"
  by (induction bs) (auto simp: toUpperCase_def toString_hex_def)

text \<open>The handler, one case for each way the insertion can end.\<close>

lemma generate_key_cases:
  "generate_key outage entropy ts p =
     (let key = toUpperCase (toString_hex (randomBytes 16 entropy));
          p' = p\<lparr>issued := Suc (issued p)\<rparr> in
      case outage (issued p) of
        Some msg \<Rightarrow>
          (res_status_json 500 [(''error'', JStr msg), (''hint'', JStr Sprawdz_hint)], p')
      | None \<Rightarrow>
          if key \<in> set (map key_license_key (db p)) then
            (res_status_json 500
               [(''error'', JStr duplicate_key), (''hint'', JStr Sprawdz_hint)], p')
          else
            (res_json [(''license_key'', JStr key),
                       (''message'', JStr ''Klucz zapisany w bazie danych'')],
             p'\<lparr>db := db p @ [\<lparr>key_license_key = key, active = True, key_created_at = ts\<rparr>]\<rparr>))"
  by (simp add: generate_key_def await_query_def pool_query_def insert_key_def Let_def
           split: option.splits)

text \<open>
  C7. The key of \<^verbatim>\<open>GET /api/generate-key\<close> is made from 16 bytes of the generator
  and is 32 characters long, each one of \<open>0\<close> to \<open>9\<close> and \<open>A\<close> to \<open>F\<close>. A response
  that carries a key carries this one, the key was not stored before, and exactly one
  row with it has been appended. When the key is already stored, the insertion fails:
  the answer is 500 and the table is as it was. When it is not and the database takes the
  statement, the answer is the key. Keys that were pairwise different stay so.
\<close>

theorem generate_key_shape_and_unique:
  fixes entropy :: "nat \<Rightarrow> 8 word"
  defines "key \<equiv> toUpperCase (toString_hex (randomBytes 16 entropy))"
  shows
    "length (randomBytes 16 entropy) = 16 \<and>
     length key = 32 \<and> set key \<subseteq> set ''0123456789ABCDEF'' \<and>
     (\<forall>k. member (fst (generate_key outage entropy ts p)) ''license_key'' = Some (JStr k) \<longrightarrow>
        k = key \<and> key \<notin> set (map key_license_key (db p)) \<and>
        db (snd (generate_key outage entropy ts p)) =
          db p @ [\<lparr>key_license_key = key, active = True, key_created_at = ts\<rparr>]) \<and>
     (key \<in> set (map key_license_key (db p)) \<longrightarrow>
        http_status (fst (generate_key outage entropy ts p)) = 500 \<and>
        db (snd (generate_key outage entropy ts p)) = db p) \<and>
     (key \<notin> set (map key_license_key (db p)) \<and> outage (issued p) = None \<longrightarrow>
        fst (generate_key outage entropy ts p) =
          res_json [(''license_key'', JStr key),
                    (''message'', JStr ''Klucz zapisany w bazie danych'')]) \<and>
     (distinct (map key_license_key (db p)) \<longrightarrow>
        distinct (map key_license_key (db (snd (generate_key outage entropy ts p)))))"
proof -
  have len: "length (randomBytes 16 entropy) = 16"
    by (simp add: randomBytes_def)
  have shape: "length key = 32" "set key \<subseteq> set ''0123456789ABCDEF''"
    unfolding key_def using toUpperCase_hex_set [of "randomBytes 16 entropy"]
    by (simp_all add: toUpperCase_hex_length len del: set_simps)
  have rest:
    "(\<forall>k. member (fst (generate_key outage entropy ts p)) ''license_key'' = Some (JStr k) \<longrightarrow>
        k = key \<and> key \<notin> set (map key_license_key (db p)) \<and>
        db (snd (generate_key outage entropy ts p)) =
          db p @ [\<lparr>key_license_key = key, active = True, key_created_at = ts\<rparr>]) \<and>
     (key \<in> set (map key_license_key (db p)) \<longrightarrow>
        http_status (fst (generate_key outage entropy ts p)) = 500 \<and>
        db (snd (generate_key outage entropy ts p)) = db p) \<and>
     (key \<notin> set (map key_license_key (db p)) \<and> outage (issued p) = None \<longrightarrow>
        fst (generate_key outage entropy ts p) =
          res_json [(''license_key'', JStr key),
                    (''message'', JStr ''Klucz zapisany w bazie danych'')]) \<and>
     (distinct (map key_license_key (db p)) \<longrightarrow>
        distinct (map key_license_key (db (snd (generate_key outage entropy ts p)))))"
    unfolding key_def generate_key_cases Let_def
    by (cases "outage (issued p)") (simp_all add: res_json_def res_status_json_def)
  from len shape rest show ?thesis by blast
qed

lemma sample_entropy_key:
  "toUpperCase (toString_hex (randomBytes 16 sample_entropy)) =
     ''0A1B2C3D4E5F708192A3B4C5D6E7F809''"
  by code_simp


theorem generate_key_shape_and_unique_witness:
  "fst (generate_key reliable sample_entropy 30 sample_keys) =
     res_json [(''license_key'', JStr ''0A1B2C3D4E5F708192A3B4C5D6E7F809''),
               (''message'', JStr ''Klucz zapisany w bazie danych'')] \<and>
   db (snd (generate_key reliable sample_entropy 30 sample_keys)) =
     db sample_keys @
       [\<lparr>key_license_key = ''0A1B2C3D4E5F708192A3B4C5D6E7F809'', active = True,
         key_created_at = 30\<rparr>] \<and>
   distinct (map key_license_key (db (snd (generate_key reliable sample_entropy 30 sample_keys)))) \<and>
   http_status (fst (generate_key reliable sample_entropy 30 sample_keys_full)) = 500 \<and>
   db (snd (generate_key reliable sample_entropy 30 sample_keys_full)) = db sample_keys_full"
proof -
  let ?key = "''0A1B2C3D4E5F708192A3B4C5D6E7F809''"
  have fresh: "?key \<notin> set (map key_license_key (db sample_keys))"
    by (simp add: sample_keys_def)
  have stored: "?key \<in> set (map key_license_key (db sample_keys_full))"
    by (simp add: sample_keys_full_def)
  have up: "reliable (issued sample_keys) = None"
    by (simp add: reliable_def)
  have old: "distinct (map key_license_key (db sample_keys))"
    by (simp add: sample_keys_def)
  note a = generate_key_shape_and_unique [of sample_entropy reliable 30 sample_keys,
      unfolded sample_entropy_key]
  note b = generate_key_shape_and_unique [of sample_entropy reliable 30 sample_keys_full,
      unfolded sample_entropy_key]
  from a fresh up have r: "fst (generate_key reliable sample_entropy 30 sample_keys) =
     res_json [(''license_key'', JStr ?key), (''message'', JStr ''Klucz zapisany w bazie danych'')]"
    by blast
  then have "member (fst (generate_key reliable sample_entropy 30 sample_keys)) ''license_key'' =
      Some (JStr ?key)"
    by (simp add: res_json_def)
  with a have d: "db (snd (generate_key reliable sample_entropy 30 sample_keys)) =
     db sample_keys @ [\<lparr>key_license_key = ?key, active = True, key_created_at = 30\<rparr>]"
    by blast
  from a old have e: "distinct (map key_license_key (db (snd (generate_key reliable sample_entropy 30 sample_keys))))"
    by blast
  from b stored have f: "http_status (fst (generate_key reliable sample_entropy 30 sample_keys_full)) = 500 \<and>
   db (snd (generate_key reliable sample_entropy 30 sample_keys_full)) = db sample_keys_full"
    by blast
  from r d e f show ?thesis by blast
qed

section \<open>The key service: verification\<close>

lemma verify_cases:
  "verify outage key p =
     (if falsy key then
        (res_json [(''valid'', JBool False), (''message'', JStr ''Brak klucza licencji'')], p)
      else
        (case outage (issued p) of
           Some msg \<Rightarrow>
             (res_status_json 500
                [(''valid'', JBool False), (''message'', JStr (Blad_serwera @ '': '' @ msg))],
              p\<lparr>issued := Suc (issued p)\<rparr>)
         | None \<Rightarrow>
             (case filter (\<lambda>r. Some (key_license_key r) = key) (db p) of
                [] \<Rightarrow> res_json [(''valid'', JBool False),
                                (''message'', JStr ''Licencja nie istnieje w systemie'')]
              | license # _ \<Rightarrow>
                  if \<not> active license then
                    res_json [(''valid'', JBool False),
                              (''message'', JStr (''Licencja zosta'' @ [CHR 0xC5, CHR 0x82] @
                                 ''a dezaktywowana''))]
                  else
                    res_json [(''valid'', JBool True), (''message'', JStr ''Licencja aktywna''),
                              (''license_key'', JStr (key_license_key license))],
              p\<lparr>issued := Suc (issued p)\<rparr>)))"
  by (cases key)
     (simp_all add: verify_def await_query_def pool_query_def select_key_def Let_def
        split: option.splits list.splits)

text \<open>
  C8. \<^verbatim>\<open>POST /api/verify\<close> answers 500 exactly when it sends its query and the
  database rejects it, and 200 otherwise; it never changes the table. A missing key, a
  key that no row has, and a key whose rows are all deactivated are each answered 200
  with \<open>valid: false\<close> and a message. \<open>valid: true\<close> comes with 200 and only when a
  row with this key is active.
\<close>

theorem verify_status_and_validity:
  "http_status (fst (verify outage key p)) =
     (if \<not> falsy key \<and> outage (issued p) \<noteq> None then 500 else 200) \<and>
   db (snd (verify outage key p)) = db p \<and>
   (falsy key \<or>
    outage (issued p) = None \<and> key \<notin> Some ` key_license_key ` set (db p) \<or>
    outage (issued p) = None \<and> (\<exists>r \<in> set (db p). Some (key_license_key r) = key) \<and>
      (\<forall>r \<in> set (db p). Some (key_license_key r) = key \<longrightarrow> \<not> active r) \<longrightarrow>
      http_status (fst (verify outage key p)) = 200 \<and>
      member (fst (verify outage key p)) ''valid'' = Some (JBool False) \<and>
      (\<exists>m. member (fst (verify outage key p)) ''message'' = Some (JStr m))) \<and>
   (member (fst (verify outage key p)) ''valid'' = Some (JBool True) \<longrightarrow>
      http_status (fst (verify outage key p)) = 200 \<and>
      (\<exists>r \<in> set (db p). Some (key_license_key r) = key \<and> active r))"
proof (cases "falsy key")
  case True
  then show ?thesis by (simp add: verify_cases res_json_def)
next
  case False
  show ?thesis
  proof (cases "outage (issued p)")
    case (Some msg)
    with False show ?thesis by (simp add: verify_cases res_status_json_def)
  next
    case None
    show ?thesis
    proof (cases "filter (\<lambda>r. Some (key_license_key r) = key) (db p)")
      case Nil
      then have "\<forall>r \<in> set (db p). Some (key_license_key r) \<noteq> key"
        by (simp add: filter_empty_conv)
      with False None Nil show ?thesis
        by (auto simp add: verify_cases res_json_def)
    next
      case (Cons license rest)
      then have "license \<in> set (filter (\<lambda>r. Some (key_license_key r) = key) (db p))"
        by simp
      then have "license \<in> set (db p)" "Some (key_license_key license) = key"
        by simp_all
      with False None Cons show ?thesis
        by (auto simp add: verify_cases res_json_def)
    qed
  qed
qed


theorem verify_status_and_validity_witness:
  "http_status (fst (verify reliable None sample_keys)) = 200 \<and>
   member (fst (verify reliable None sample_keys)) ''valid'' = Some (JBool False) \<and>
   http_status (fst (verify reliable (Some ''CCCC'') sample_keys)) = 200 \<and>
   member (fst (verify reliable (Some ''CCCC'') sample_keys)) ''valid'' = Some (JBool False) \<and>
   http_status (fst (verify reliable (Some ''BBBB'') sample_keys)) = 200 \<and>
   member (fst (verify reliable (Some ''BBBB'') sample_keys)) ''valid'' = Some (JBool False) \<and>
   member (fst (verify reliable (Some ''AAAA'') sample_keys)) ''valid'' = Some (JBool True) \<and>
   http_status (fst (verify reliable (Some ''AAAA'') sample_keys)) = 200 \<and>
   http_status (fst (verify (\<lambda>n. Some ''timeout'') (Some ''AAAA'') sample_keys)) = 500"
proof -
  have valid: "member (fst (verify reliable (Some ''AAAA'') sample_keys)) ''valid'' = Some (JBool True)"
    by (simp add: verify_cases reliable_def sample_keys_def res_json_def)
  from verify_status_and_validity [of reliable None sample_keys]
    verify_status_and_validity [of reliable "Some ''CCCC''" sample_keys]
    verify_status_and_validity [of reliable "Some ''BBBB''" sample_keys]
    verify_status_and_validity [of reliable "Some ''AAAA''" sample_keys]
    verify_status_and_validity [of "\<lambda>n. Some ''timeout''" "Some ''AAAA''" sample_keys]
    valid
  show ?thesis
    by (simp add: reliable_def sample_keys_def)
qed

section \<open>The license server: validation and status\<close>

lemmas statement_defs = select_license_def update_status_def count_servers_def select_server_def
  upsert_server_def update_last_check_def insert_log_def select_status_def

lemmas handler_defs = await_query_def pool_query_def logAction_def reliable_def Let_def

lemma validate_not_expired:
  assumes "req_license_key body = Some k" "k \<noteq> []" "req_server_id body = Some sid" "sid \<noteq> []"
    and "filter (\<lambda>l. license_key l = k) (licenses (db p)) = license # others"
    and "status license = ''ACTIVE''"
    and "case expires_at license of None \<Rightarrow> True | Some e \<Rightarrow> now \<le> e"
  shows "fst (validate reliable now ts body p) =
     (if \<not> (\<exists>s \<in> set (license_servers (db p)). srv_license_key s = k \<and> server_id s = sid) \<and>
         max_servers license \<le>
           int (length (filter (\<lambda>s. srv_license_key s = k) (license_servers (db p))))
      then res_status_json 403 [(''valid'', JBool False), (''error'', JStr Przekroczony_limit)]
      else res_json [(''valid'', JBool True), (''active'', JBool True),
                     (''status'', JStr (status license)),
                     (''owner'', JStr (owner license)),
                     (''expires'', json_date (expires_at license))])"
    and "map status (licenses (db (snd (validate reliable now ts body p)))) =
           map status (licenses (db p))"
  using assms
  by (auto simp add: validate_def handler_defs statement_defs filter_empty_conv o_def
      split: option.splits)

text \<open>
  C1. A validation request with key and server id, for a license that is ACTIVE and not
  past its expiry, sent to a database that carries out every statement: the answer is the
  capacity rejection (403, \<open>valid: false\<close>, the limit message) exactly when no binding
  for this key and server id exists and the number of bindings of the key is at least
  \<open>max_servers\<close>; otherwise it is 200 with \<open>valid: true\<close>. So a server id that is
  already bound is always answered 200, whatever the number of bindings.
\<close>

theorem validate_capacity_iff:
  assumes "req_license_key body = Some k" "k \<noteq> []" "req_server_id body = Some sid" "sid \<noteq> []"
    and "filter (\<lambda>l. license_key l = k) (licenses (db p)) = license # others"
    and "status license = ''ACTIVE''"
    and "case expires_at license of None \<Rightarrow> True | Some e \<Rightarrow> now \<le> e"
  shows
    "(http_status (fst (validate reliable now ts body p)) = 403)
     = (\<not> (\<exists>s \<in> set (license_servers (db p)). srv_license_key s = k \<and> server_id s = sid) \<and>
        max_servers license \<le>
          int (length (filter (\<lambda>s. srv_license_key s = k) (license_servers (db p))))) \<and>
     (http_status (fst (validate reliable now ts body p)) = 403 \<and>
      member (fst (validate reliable now ts body p)) ''valid'' = Some (JBool False) \<and>
      member (fst (validate reliable now ts body p)) ''error'' = Some (JStr Przekroczony_limit))
     = (\<not> (\<exists>s \<in> set (license_servers (db p)). srv_license_key s = k \<and> server_id s = sid) \<and>
        max_servers license \<le>
          int (length (filter (\<lambda>s. srv_license_key s = k) (license_servers (db p))))) \<and>
     (http_status (fst (validate reliable now ts body p)) = 200 \<and>
      member (fst (validate reliable now ts body p)) ''valid'' = Some (JBool True))
     = (\<not> (\<not> (\<exists>s \<in> set (license_servers (db p)). srv_license_key s = k \<and> server_id s = sid) \<and>
        max_servers license \<le>
          int (length (filter (\<lambda>s. srv_license_key s = k) (license_servers (db p)))))) \<and>
     ((\<exists>s \<in> set (license_servers (db p)). srv_license_key s = k \<and> server_id s = sid) \<longrightarrow>
        http_status (fst (validate reliable now ts body p)) = 200 \<and>
        member (fst (validate reliable now ts body p)) ''valid'' = Some (JBool True))"
  unfolding validate_not_expired(1) [OF assms]
  by (simp add: res_json_def res_status_json_def)

theorem validate_capacity_iff_witness:
  "http_status (fst (validate reliable 200 201 (sample_body ''S3'') sample_pool)) = 403 \<and>
   member (fst (validate reliable 200 201 (sample_body ''S3'') sample_pool)) ''valid'' =
     Some (JBool False) \<and>
   http_status (fst (validate reliable 200 201 (sample_body ''S1'') sample_pool)) = 200 \<and>
   member (fst (validate reliable 200 201 (sample_body ''S1'') sample_pool)) ''valid'' =
     Some (JBool True)"
proof -
  have sel: "filter (\<lambda>l. license_key l = ''ABC123'') (licenses (db sample_pool)) =
      sample_license # []"
    by (simp add: sample_pool_def sample_license_def)
  have act: "status sample_license = ''ACTIVE''"
    by (simp add: sample_license_def)
  have live: "case expires_at sample_license of None \<Rightarrow> True | Some e \<Rightarrow> 200 \<le> e"
    by (simp add: sample_license_def)
  have new: "\<not> (\<exists>s \<in> set (license_servers (db sample_pool)).
      srv_license_key s = ''ABC123'' \<and> server_id s = ''S3'')"
    by (simp add: sample_pool_def sample_server_def)
  have full: "max_servers sample_license \<le>
      int (length (filter (\<lambda>s. srv_license_key s = ''ABC123'') (license_servers (db sample_pool))))"
    by (simp add: sample_pool_def sample_server_def sample_license_def)
  have old: "\<exists>s \<in> set (license_servers (db sample_pool)).
      srv_license_key s = ''ABC123'' \<and> server_id s = ''S1''"
    by (simp add: sample_pool_def sample_server_def)
  have k3: "req_license_key (sample_body ''S3'') = Some ''ABC123''"
    and s3: "req_server_id (sample_body ''S3'') = Some ''S3''"
    and k1: "req_license_key (sample_body ''S1'') = Some ''ABC123''"
    and s1: "req_server_id (sample_body ''S1'') = Some ''S1''"
    by (simp_all add: sample_body_def)
  have ne: "''ABC123'' \<noteq> []" "''S3'' \<noteq> []" "''S1'' \<noteq> []"
    by simp_all
  from validate_capacity_iff [OF k3 ne(1) s3 ne(2) sel act live, of 201] new full
    validate_capacity_iff [OF k1 ne(1) s1 ne(3) sel act live, of 201] old
  show ?thesis by blast
qed


lemma validate_expired:
  assumes "req_license_key body = Some k" "k \<noteq> []" "req_server_id body = Some sid" "sid \<noteq> []"
    and "filter (\<lambda>l. license_key l = k) (licenses (db p)) = license # others"
    and "status license = ''ACTIVE''"
    and "expires_at license = Some e" "e < now"
  shows "validate reliable now ts body p =
     (res_status_json 403 [(''valid'', JBool False), (''error'', JStr Licencja_wygasla)],
      \<lparr>db = (db p)\<lparr>licenses :=
              map (\<lambda>l. if license_key l = k then l\<lparr>status := ''EXPIRED''\<rparr> else l)
                (licenses (db p)),
            license_logs := license_logs (db p) @
              [\<lparr>log_license_key = Some k, action = ''VALIDATE_FAILED'',
                details = Licencja_wygasla, log_timestamp = ts\<rparr>]\<rparr>,
       issued = issued p + 3\<rparr>)"
  using assms
  by (simp add: validate_def handler_defs statement_defs)

text \<open>
  C2. The same request for a license that is ACTIVE with \<open>expires_at\<close> before now:
  the answer is the expiry rejection (403, \<open>valid: false\<close>), every row of the key has
  status EXPIRED in the table afterwards, one VALIDATE_FAILED entry is appended to the
  log, and the bindings are untouched. Three statements were sent (the SELECT of the
  license, the UPDATE and the log's INSERT): neither the count nor the upsert.
\<close>

theorem validate_expires_overdue_license:
  assumes "req_license_key body = Some k" "k \<noteq> []" "req_server_id body = Some sid" "sid \<noteq> []"
    and "filter (\<lambda>l. license_key l = k) (licenses (db p)) = license # others"
    and "status license = ''ACTIVE''"
    and "expires_at license = Some e" "e < now"
  shows
    "fst (validate reliable now ts body p) =
       res_status_json 403 [(''valid'', JBool False), (''error'', JStr Licencja_wygasla)] \<and>
     http_status (fst (validate reliable now ts body p)) = 403 \<and>
     member (fst (validate reliable now ts body p)) ''valid'' = Some (JBool False) \<and>
     licenses (db (snd (validate reliable now ts body p))) =
       map (\<lambda>l. if license_key l = k then l\<lparr>status := ''EXPIRED''\<rparr> else l) (licenses (db p)) \<and>
     list_all (\<lambda>l. status l = ''EXPIRED'')
       (filter (\<lambda>l. license_key l = k) (licenses (db (snd (validate reliable now ts body p))))) \<and>
     filter (\<lambda>l. license_key l = k) (licenses (db (snd (validate reliable now ts body p)))) \<noteq> [] \<and>
     license_logs (db (snd (validate reliable now ts body p))) =
       license_logs (db p) @
         [\<lparr>log_license_key = Some k, action = ''VALIDATE_FAILED'', details = Licencja_wygasla,
           log_timestamp = ts\<rparr>] \<and>
     license_servers (db (snd (validate reliable now ts body p))) = license_servers (db p) \<and>
     issued (snd (validate reliable now ts body p)) = issued p + 3"
proof -
  let ?upd = "\<lambda>l. if license_key l = k then l\<lparr>status := ''EXPIRED''\<rparr> else l"
  have same_key: "(\<lambda>l. license_key l = k) \<circ> ?upd = (\<lambda>l. license_key l = k)"
    by (auto simp add: fun_eq_iff)
  have sel: "filter (\<lambda>l. license_key l = k) (map ?upd (licenses (db p))) =
      map ?upd (license # others)"
    by (simp add: filter_map same_key assms(5))
  have all: "list_all (\<lambda>l. status l = ''EXPIRED'') (map ?upd (license # others))"
    using assms(5) [symmetric] by (simp add: list_all_iff)
  show ?thesis
    unfolding validate_expired [OF assms]
    using all by (simp add: sel res_status_json_def)
qed

theorem validate_expires_overdue_license_witness:
  "fst (validate reliable 501 502 (sample_body ''S1'') sample_pool) =
       res_status_json 403 [(''valid'', JBool False), (''error'', JStr Licencja_wygasla)] \<and>
   map status (licenses (db (snd (validate reliable 501 502 (sample_body ''S1'') sample_pool)))) =
     [''EXPIRED''] \<and>
   license_logs (db (snd (validate reliable 501 502 (sample_body ''S1'') sample_pool))) =
     [\<lparr>log_license_key = Some ''ABC123'', action = ''VALIDATE_FAILED'',
       details = Licencja_wygasla, log_timestamp = 502\<rparr>] \<and>
   license_servers (db (snd (validate reliable 501 502 (sample_body ''S1'') sample_pool))) =
     [sample_server ''S1'', sample_server ''S2'']"
proof -
  have sel: "filter (\<lambda>l. license_key l = ''ABC123'') (licenses (db sample_pool)) =
      sample_license # []"
    by (simp add: sample_pool_def sample_license_def)
  have act: "status sample_license = ''ACTIVE''"
    by (simp add: sample_license_def)
  have ex: "expires_at sample_license = Some 500" "(500::int) < 501"
    by (simp_all add: sample_license_def)
  have k1: "req_license_key (sample_body ''S1'') = Some ''ABC123''"
    and s1: "req_server_id (sample_body ''S1'') = Some ''S1''"
    by (simp_all add: sample_body_def)
  have ne: "''ABC123'' \<noteq> []" "''S1'' \<noteq> []"
    by simp_all
  note w = validate_expires_overdue_license [OF k1 ne(1) s1 ne(2) sel act ex, of 502]
  have "licenses (db sample_pool) = [sample_license]"
    "license_logs (db sample_pool) = []"
    "license_servers (db sample_pool) = [sample_server ''S1'', sample_server ''S2'']"
    "license_key sample_license = ''ABC123''"
    by (simp_all add: sample_pool_def sample_license_def)
  with w show ?thesis by simp
qed

lemma validate_200:
  "req_license_key body = Some k \<longrightarrow> req_server_id body = Some sid \<longrightarrow>
   http_status (fst (validate outage now ts body p)) = 200 \<longrightarrow>
     license_servers (db (snd (validate outage now ts body p))) =
       (if list_ex (\<lambda>s. srv_license_key s = k \<and> server_id s = sid) (license_servers (db p)) then
           map (\<lambda>s. if srv_license_key s = k \<and> server_id s = sid then
                  s\<lparr>server_ip := req_server_ip body, server_port := req_server_port body,
                    plugin_version := req_plugin_version body,
                    minecraft_version := req_minecraft_version body,
                    online_players := req_online_players body,
                    max_players := req_max_players body, last_seen := ts\<rparr>
                else s) (license_servers (db p))
         else license_servers (db p) @
           [\<lparr>srv_license_key = k, server_id = sid,
             server_ip = req_server_ip body, server_port = req_server_port body,
             plugin_version = req_plugin_version body,
             minecraft_version = req_minecraft_version body,
             online_players = req_online_players body,
             max_players = req_max_players body, last_seen = ts\<rparr>])"
  by (simp add: validate_def await_query_def pool_query_def logAction_def Let_def statement_defs
        missing_fields_def validate_failure_def res_status_json_def res_json_def
      split: option.split list.split)

text \<open>
  C3. A validation that is answered 200 for a key and server id that are already bound:
  the bindings afterwards are the bindings before with the request's values (ip, port,
  versions, player counts) and the database's time written into each row of this key and
  server id. No row is added, the keys and server ids are the same in the same order,
  and the number of bindings of the key is the same.
\<close>

theorem revalidate_overwrites_binding:
  assumes "http_status (fst (validate outage now ts body p)) = 200"
    and "req_license_key body = Some k" "req_server_id body = Some sid"
    and "\<exists>s \<in> set (license_servers (db p)). srv_license_key s = k \<and> server_id s = sid"
  shows
    "license_servers (db (snd (validate outage now ts body p))) =
       map (\<lambda>s. if srv_license_key s = k \<and> server_id s = sid then
              s\<lparr>server_ip := req_server_ip body, server_port := req_server_port body,
                plugin_version := req_plugin_version body,
                minecraft_version := req_minecraft_version body,
                online_players := req_online_players body,
                max_players := req_max_players body, last_seen := ts\<rparr>
            else s) (license_servers (db p)) \<and>
     length (license_servers (db (snd (validate outage now ts body p)))) =
       length (license_servers (db p)) \<and>
     map (\<lambda>s. (srv_license_key s, server_id s))
         (license_servers (db (snd (validate outage now ts body p)))) =
       map (\<lambda>s. (srv_license_key s, server_id s)) (license_servers (db p)) \<and>
     length (filter (\<lambda>s. srv_license_key s = k)
        (license_servers (db (snd (validate outage now ts body p))))) =
       length (filter (\<lambda>s. srv_license_key s = k) (license_servers (db p)))"
proof -
  let ?upd = "\<lambda>s. if srv_license_key s = k \<and> server_id s = sid then
              s\<lparr>server_ip := req_server_ip body, server_port := req_server_port body,
                plugin_version := req_plugin_version body,
                minecraft_version := req_minecraft_version body,
                online_players := req_online_players body,
                max_players := req_max_players body, last_seen := ts\<rparr>
            else s"
  from assms(4) have "list_ex (\<lambda>s. srv_license_key s = k \<and> server_id s = sid) (license_servers (db p))"
    by (simp add: list_ex_iff)
  with validate_200 [of body k sid outage now ts p] assms(1-3)
  have eq: "license_servers (db (snd (validate outage now ts body p))) =
      map ?upd (license_servers (db p))"
    by simp
  have same_key: "(\<lambda>s. srv_license_key s = k) \<circ> ?upd = (\<lambda>s. srv_license_key s = k)"
    by (auto simp add: fun_eq_iff)
  have ids: "(\<lambda>s. (srv_license_key s, server_id s)) \<circ> ?upd = (\<lambda>s. (srv_license_key s, server_id s))"
    by (auto simp add: fun_eq_iff)
  show ?thesis
    unfolding eq by (simp add: filter_map same_key ids)
qed


theorem revalidate_overwrites_binding_witness:
  "http_status (fst (validate reliable 200 201 (sample_body ''S1'') sample_pool)) = 200 \<and>
   license_servers (db (snd (validate reliable 200 201 (sample_body ''S1'') sample_pool))) =
     [\<lparr>srv_license_key = ''ABC123'', server_id = ''S1'', server_ip = Some ''10.0.0.7'',
       server_port = Some 25565, plugin_version = Some ''1.4'', minecraft_version = None,
       online_players = Some 3, max_players = Some 20, last_seen = 201\<rparr>,
      sample_server ''S2'']"
proof -
  have ok: "http_status (fst (validate reliable 200 201 (sample_body ''S1'') sample_pool)) = 200"
    by (simp add: validate_def handler_defs statement_defs sample_body_def sample_pool_def
        sample_license_def sample_server_def res_json_def)
  have k1: "req_license_key (sample_body ''S1'') = Some ''ABC123''"
    and s1: "req_server_id (sample_body ''S1'') = Some ''S1''"
    by (simp_all add: sample_body_def)
  have old: "\<exists>s \<in> set (license_servers (db sample_pool)).
      srv_license_key s = ''ABC123'' \<and> server_id s = ''S1''"
    by (simp add: sample_pool_def sample_server_def)
  from revalidate_overwrites_binding [OF ok k1 s1 old] ok show ?thesis
    by (simp add: sample_pool_def sample_server_def sample_body_def)
qed

lemma check_unfolded:
  "check outage now (Some k) p =
     (if k = [] then (res_status_json 400 [(''error'', JStr ''Brak klucza licencji'')], p)
      else case outage (issued p) of
        Some msg \<Rightarrow> (res_status_json 500 [(''error'', JStr Blad_serwera)], p\<lparr>issued := Suc (issued p)\<rparr>)
      | None \<Rightarrow>
         (case filter (\<lambda>l. license_key l = k) (licenses (db p)) of
            [] \<Rightarrow> res_status_json 404 [(''error'', JStr ''Licencja nie znaleziona'')]
          | l # _ \<Rightarrow>
              res_json
                 [(''active'', JBool (status l = ''ACTIVE'' \<and>
                     (case expires_at l of None \<Rightarrow> True | Some e \<Rightarrow> now < e))),
                  (''status'', JStr (status l)),
                  (''reason'', JStr (or_else (reason l) [])),
                  (''expires'', json_date (expires_at l))],
          p\<lparr>issued := Suc (issued p)\<rparr>))"
  by (simp add: check_def await_query_def pool_query_def Let_def select_status_def
        server_failure_def split: option.split list.split)

text \<open>
  C4. \<^verbatim>\<open>POST /api/license/check\<close> never changes a table, so a license past its
  expiry keeps its status. When the key's row is found, the answer is 200 and its
  \<open>active\<close> member is true exactly when the status is ACTIVE and \<open>expires_at\<close> is
  NULL or after now.
\<close>

theorem check_active_and_frame:
  "db (snd (check outage now key p)) = db p \<and>
   (key = Some k \<and> k \<noteq> [] \<and> outage (issued p) = None \<and>
    filter (\<lambda>l. license_key l = k) (licenses (db p)) = license # others \<longrightarrow>
      http_status (fst (check outage now key p)) = 200 \<and>
      member (fst (check outage now key p)) ''active'' =
        Some (JBool (status license = ''ACTIVE'' \<and>
                     (expires_at license = None \<or> (\<exists>e. expires_at license = Some e \<and> now < e)))) \<and>
      member (fst (check outage now key p)) ''status'' = Some (JStr (status license)))"
proof (cases key)
  case None
  then show ?thesis by (simp add: check_def)
next
  case (Some k')
  show ?thesis
    unfolding Some check_unfolded
    by (cases "expires_at license")
       (auto simp add: res_json_def split: option.split list.split)
qed

theorem check_active_and_frame_witness:
  "db (snd (check reliable 600 (Some ''ABC123'') sample_pool)) = db sample_pool \<and>
   map status (licenses (db (snd (check reliable 600 (Some ''ABC123'') sample_pool)))) =
     [''ACTIVE''] \<and>
   member (fst (check reliable 600 (Some ''ABC123'') sample_pool)) ''active'' =
     Some (JBool False) \<and>
   member (fst (check reliable 400 (Some ''ABC123'') sample_pool)) ''active'' =
     Some (JBool True)"
proof -
  have sel: "filter (\<lambda>l. license_key l = ''ABC123'') (licenses (db sample_pool)) =
      sample_license # []"
    by (simp add: sample_pool_def sample_license_def)
  have up: "reliable (issued sample_pool) = None"
    by (simp add: reliable_def)
  have ne: "''ABC123'' \<noteq> []"
    by simp
  from check_active_and_frame [of reliable 600 "Some ''ABC123''" sample_pool "''ABC123''"
      sample_license "[]"]
    check_active_and_frame [of reliable 400 "Some ''ABC123''" sample_pool "''ABC123''"
      sample_license "[]"]
    sel up ne
  have "db (snd (check reliable 600 (Some ''ABC123'') sample_pool)) = db sample_pool"
    and "member (fst (check reliable 600 (Some ''ABC123'') sample_pool)) ''active'' =
      Some (JBool (status sample_license = ''ACTIVE'' \<and>
        (expires_at sample_license = None \<or>
         (\<exists>e. expires_at sample_license = Some e \<and> 600 < e))))"
    and "member (fst (check reliable 400 (Some ''ABC123'') sample_pool)) ''active'' =
      Some (JBool (status sample_license = ''ACTIVE'' \<and>
        (expires_at sample_license = None \<or>
         (\<exists>e. expires_at sample_license = Some e \<and> 400 < e))))"
    by blast+
  then show ?thesis
    by (simp add: sample_pool_def sample_license_def)
qed

section \<open>The license server: the administrator's endpoints\<close>

lemma disable_authorised:
  "admin_license_disable outage ADMIN_KEY ts ADMIN_KEY key rsn p =
     (case outage (issued p) of
        Some msg \<Rightarrow> (server_failure msg, p\<lparr>issued := Suc (issued p)\<rparr>)
      | None \<Rightarrow>
          (res_json [(''success'', JBool True), (''message'', JStr Licencja_wylaczona)],
           logAction outage ts key ''LICENSE_DISABLED'' (or_else rsn ''Admin action'')
             (p\<lparr>issued := Suc (issued p),
                db := (db p)\<lparr>licenses :=
                  map (\<lambda>l. if Some (license_key l) = key
                            then l\<lparr>status := ''DISABLED'',
                                   reason := Some (or_else rsn Wylaczona_przez_admina)\<rparr>
                            else l) (licenses (db p))\<rparr>\<rparr>)))"
  by (simp add: admin_license_disable_def await_query_def pool_query_def Let_def
        update_status_reason_def split: option.split)

lemma logAction_tables:
  "licenses (db (logAction outage ts key act det p)) = licenses (db p)"
  "license_servers (db (logAction outage ts key act det p)) = license_servers (db p)"
  "issued (logAction outage ts key act det p) = Suc (issued p)"
  by (simp_all add: logAction_def pool_query_def Let_def insert_log_def split: option.split)

lemma logAction_reliable:
  "license_logs (db (logAction reliable ts key act det p)) =
     license_logs (db p) @ [\<lparr>log_license_key = key, action = act, details = det, log_timestamp = ts\<rparr>]"
  by (simp add: logAction_def pool_query_def Let_def insert_log_def reliable_def)

text \<open>
  C5. An authorised call of \<^verbatim>\<open>POST /api/admin/license/disable\<close>, with a database
  that carries out every statement, answers success; every row of the key gets status
  DISABLED and as reason the supplied one when it is a non-empty string, otherwise the
  default \<open>Wylaczona_przez_admina\<close>; the bindings stay. A second call with the same
  arguments leaves licenses and bindings as the first did and answers the same; each
  call appends one LICENSE_DISABLED entry to the log. For a key that no row has, no
  license changes.
\<close>

theorem disable_sets_status_and_reason:
  fixes ADMIN_KEY key rsn :: "string option" and p :: "database pool" and ts ts' :: timestamp
  defines "once \<equiv> admin_license_disable reliable ADMIN_KEY ts ADMIN_KEY key rsn p"
  defines "twice \<equiv> admin_license_disable reliable ADMIN_KEY ts' ADMIN_KEY key rsn (snd once)"
  shows
    "fst once = res_json [(''success'', JBool True), (''message'', JStr Licencja_wylaczona)] \<and>
     licenses (db (snd once)) =
       map (\<lambda>l. if Some (license_key l) = key
                 then l\<lparr>status := ''DISABLED'',
                        reason := Some (case rsn of None \<Rightarrow> Wylaczona_przez_admina
                                        | Some r \<Rightarrow> if r = [] then Wylaczona_przez_admina else r)\<rparr>
                 else l) (licenses (db p)) \<and>
     license_servers (db (snd once)) = license_servers (db p) \<and>
     licenses (db (snd twice)) = licenses (db (snd once)) \<and>
     license_servers (db (snd twice)) = license_servers (db (snd once)) \<and>
     fst twice = fst once \<and>
     license_logs (db (snd once)) =
       license_logs (db p) @
         [\<lparr>log_license_key = key, action = ''LICENSE_DISABLED'',
           details = (case rsn of None \<Rightarrow> ''Admin action''
                      | Some r \<Rightarrow> if r = [] then ''Admin action'' else r),
           log_timestamp = ts\<rparr>] \<and>
     length (license_logs (db (snd twice))) = Suc (length (license_logs (db (snd once)))) \<and>
     (key \<notin> Some ` license_key ` set (licenses (db p)) \<longrightarrow>
        licenses (db (snd once)) = licenses (db p))"
proof -
  let ?r = "case rsn of None \<Rightarrow> Wylaczona_przez_admina
            | Some r \<Rightarrow> if r = [] then Wylaczona_przez_admina else r"
  let ?upd = "\<lambda>l. if Some (license_key l) = key
                   then l\<lparr>status := ''DISABLED'', reason := Some ?r\<rparr> else l"
  have r: "or_else rsn Wylaczona_przez_admina = ?r"
    by (cases rsn) simp_all
  have idem: "?upd \<circ> ?upd = ?upd"
    by (auto simp add: fun_eq_iff)
  have absent: "key \<notin> Some ` license_key ` set (licenses (db p)) \<longrightarrow>
      map ?upd (licenses (db p)) = licenses (db p)"
  proof
    assume "key \<notin> Some ` license_key ` set (licenses (db p))"
    then have "\<forall>l \<in> set (licenses (db p)). Some (license_key l) \<noteq> key"
      by auto
    then show "map ?upd (licenses (db p)) = licenses (db p)"
      by (simp add: map_idI)
  qed
  have d: "or_else rsn ''Admin action'' =
      (case rsn of None \<Rightarrow> ''Admin action'' | Some r \<Rightarrow> if r = [] then ''Admin action'' else r)"
    by (cases rsn) simp_all
  have once: "fst once = res_json [(''success'', JBool True), (''message'', JStr Licencja_wylaczona)]"
    "licenses (db (snd once)) = map ?upd (licenses (db p))"
    "license_servers (db (snd once)) = license_servers (db p)"
    unfolding once_def disable_authorised
    by (simp_all add: reliable_def logAction_tables r)
  have once_log: "license_logs (db (snd once)) =
      license_logs (db p) @
        [\<lparr>log_license_key = key, action = ''LICENSE_DISABLED'',
          details = or_else rsn ''Admin action'', log_timestamp = ts\<rparr>]"
    unfolding once_def disable_authorised
    by (simp add: reliable_def logAction_reliable)
  have twice: "licenses (db (snd twice)) = map ?upd (licenses (db (snd once)))"
    "license_servers (db (snd twice)) = license_servers (db (snd once))"
    "fst twice = res_json [(''success'', JBool True), (''message'', JStr Licencja_wylaczona)]"
    unfolding twice_def disable_authorised
    by (simp_all add: reliable_def logAction_tables r)
  have twice_log: "length (license_logs (db (snd twice))) =
      Suc (length (license_logs (db (snd once))))"
    unfolding twice_def disable_authorised
    by (simp add: reliable_def logAction_reliable)
  from once twice absent once_log twice_log show ?thesis
    by (simp add: idem d)
qed

theorem disable_sets_status_and_reason_witness:
  "map (\<lambda>l. (status l, reason l))
     (licenses (db (snd (admin_license_disable reliable (Some ''s3cret'') 300 (Some ''s3cret'')
        (Some ''ABC123'') (Some ''chargeback'') sample_pool)))) =
     [(''DISABLED'', Some ''chargeback'')] \<and>
   licenses (db (snd (admin_license_disable reliable (Some ''s3cret'') 300 (Some ''s3cret'')
        (Some ''NOPE'') (Some ''chargeback'') sample_pool))) = licenses (db sample_pool)"
proof -
  have absent: "Some ''NOPE'' \<notin> Some ` license_key ` set (licenses (db sample_pool))"
    by (simp add: sample_pool_def sample_license_def)
  from disable_sets_status_and_reason [of "Some ''s3cret''" 300 "Some ''ABC123''"
      "Some ''chargeback''" sample_pool]
    disable_sets_status_and_reason [of "Some ''s3cret''" 300 "Some ''NOPE''"
      "Some ''chargeback''" sample_pool]
    absent
  show ?thesis
    by (simp add: sample_pool_def sample_license_def)
qed

text \<open>
  C5 with the default \<^verbatim>\<open>Disabled by admin\<close> does not hold: with the reason omitted,
  the stored reason is the source's Polish default, a different string. And a reason
  that is supplied but empty is not stored: the default replaces it.
\<close>

theorem disable_default_reason_counterexample:
  "map reason (licenses (db (snd (admin_license_disable reliable (Some ''s3cret'') 300
       (Some ''s3cret'') (Some ''ABC123'') None sample_pool)))) = [Some Wylaczona_przez_admina] \<and>
   Wylaczona_przez_admina \<noteq> ''Disabled by admin'' \<and>
   map reason (licenses (db (snd (admin_license_disable reliable (Some ''s3cret'') 300
       (Some ''s3cret'') (Some ''ABC123'') (Some []) sample_pool)))) = [Some Wylaczona_przez_admina] \<and>
   Wylaczona_przez_admina \<noteq> []"
  by (simp add: disable_authorised logAction_tables reliable_def sample_pool_def
        sample_license_def Wylaczona_przez_admina_def)

text \<open>
  C6. When the \<^verbatim>\<open>x-admin-key\<close> header differs from \<^verbatim>\<open>ADMIN_KEY\<close> (an absent or
  empty header included, whenever it differs), create, disable and list each answer 401
  and hand back the pool as it was: no table has changed and no statement was sent.
\<close>

theorem admin_rejects_wrong_key:
  assumes "adminKey \<noteq> ADMIN_KEY"
  shows
    "admin_license_create outage ADMIN_KEY ts adminKey body p = (unauthorized, p) \<and>
     admin_license_disable outage ADMIN_KEY ts adminKey key rsn p = (unauthorized, p) \<and>
     admin_licenses outage ADMIN_KEY ts adminKey p = (unauthorized, p) \<and>
     http_status unauthorized = 401"
  using assms
  by (simp add: admin_license_create_def admin_license_disable_def admin_licenses_def
        unauthorized_def res_status_json_def)

theorem admin_rejects_wrong_key_witness:
  "None \<noteq> Some ''s3cret'' \<and>
   admin_license_create reliable (Some ''s3cret'') 300 None sample_create sample_pool =
     (unauthorized, sample_pool) \<and>
   admin_license_disable reliable (Some ''s3cret'') 300 None (Some ''ABC123'') None sample_pool =
     (unauthorized, sample_pool) \<and>
   admin_licenses reliable (Some ''s3cret'') 300 None sample_pool = (unauthorized, sample_pool) \<and>
   admin_license_disable reliable (Some ''s3cret'') 300 (Some []) (Some ''ABC123'') None sample_pool =
     (unauthorized, sample_pool) \<and>
   admin_license_disable reliable (Some ''s3cret'') 300 (Some ''s3cre'') (Some ''ABC123'') None
     sample_pool = (unauthorized, sample_pool)"
proof -
  have a: "None \<noteq> Some ''s3cret''" and b: "Some [] \<noteq> Some ''s3cret''"
    and c: "Some ''s3cre'' \<noteq> Some ''s3cret''"
    by simp_all
  from admin_rejects_wrong_key [OF a, of reliable 300 sample_create sample_pool "Some ''ABC123''" None]
    admin_rejects_wrong_key [OF b, of reliable 300 sample_create sample_pool "Some ''ABC123''" None]
    admin_rejects_wrong_key [OF c, of reliable 300 sample_create sample_pool "Some ''ABC123''" None]
    a
  show ?thesis by blast
qed


section \<open>The license server: the expiry instant and the unset secret\<close>

text \<open>
  C9. For an ACTIVE license whose \<open>expires_at\<close> is exactly now, the check endpoint
  reports \<open>active: false\<close>, while validation does not take the license for expired:
  no status changes, the answer is decided by the capacity check alone, and it is 200
  with \<open>valid: true\<close> when the server id is bound or the key has room.
\<close>

theorem expiry_instant_disagreement:
  assumes "req_license_key body = Some k" "k \<noteq> []" "req_server_id body = Some sid" "sid \<noteq> []"
    and "filter (\<lambda>l. license_key l = k) (licenses (db p)) = license # others"
    and "status license = ''ACTIVE''"
    and "expires_at license = Some now"
  shows
    "http_status (fst (check reliable now (Some k) p)) = 200 \<and>
     member (fst (check reliable now (Some k) p)) ''active'' = Some (JBool False) \<and>
     fst (validate reliable now ts body p) =
       (if \<not> (\<exists>s \<in> set (license_servers (db p)). srv_license_key s = k \<and> server_id s = sid) \<and>
           max_servers license \<le>
             int (length (filter (\<lambda>s. srv_license_key s = k) (license_servers (db p))))
        then res_status_json 403 [(''valid'', JBool False), (''error'', JStr Przekroczony_limit)]
        else res_json [(''valid'', JBool True), (''active'', JBool True),
                       (''status'', JStr ''ACTIVE''), (''owner'', JStr (owner license)),
                       (''expires'', JDate now)]) \<and>
     map status (licenses (db (snd (validate reliable now ts body p)))) =
       map status (licenses (db p)) \<and>
     ((\<exists>s \<in> set (license_servers (db p)). srv_license_key s = k \<and> server_id s = sid) \<or>
      int (length (filter (\<lambda>s. srv_license_key s = k) (license_servers (db p)))) <
        max_servers license \<longrightarrow>
        http_status (fst (validate reliable now ts body p)) = 200 \<and>
        member (fst (validate reliable now ts body p)) ''valid'' = Some (JBool True))"
proof -
  have live: "case expires_at license of None \<Rightarrow> True | Some e \<Rightarrow> now \<le> e"
    by (simp add: assms(7))
  note v = validate_not_expired [OF assms(1-6) live]
  have c: "http_status (fst (check reliable now (Some k) p)) = 200"
    "member (fst (check reliable now (Some k) p)) ''active'' = Some (JBool False)"
    by (simp_all add: check_unfolded reliable_def assms res_json_def)
  show ?thesis
    unfolding v using c by (auto simp add: assms res_json_def)
qed

theorem expiry_instant_disagreement_witness:
  "member (fst (check reliable 500 (Some ''ABC123'') sample_pool)) ''active'' =
     Some (JBool False) \<and>
   http_status (fst (validate reliable 500 501 (sample_body ''S1'') sample_pool)) = 200 \<and>
   member (fst (validate reliable 500 501 (sample_body ''S1'') sample_pool)) ''valid'' =
     Some (JBool True) \<and>
   map status (licenses (db (snd (validate reliable 500 501 (sample_body ''S1'') sample_pool)))) =
     [''ACTIVE'']"
proof -
  have sel: "filter (\<lambda>l. license_key l = ''ABC123'') (licenses (db sample_pool)) =
      sample_license # []"
    by (simp add: sample_pool_def sample_license_def)
  have act: "status sample_license = ''ACTIVE''"
    and ex: "expires_at sample_license = Some 500"
    by (simp_all add: sample_license_def)
  have k1: "req_license_key (sample_body ''S1'') = Some ''ABC123''"
    and s1: "req_server_id (sample_body ''S1'') = Some ''S1''"
    by (simp_all add: sample_body_def)
  have ne: "''ABC123'' \<noteq> []" "''S1'' \<noteq> []"
    by simp_all
  have old: "\<exists>s \<in> set (license_servers (db sample_pool)).
      srv_license_key s = ''ABC123'' \<and> server_id s = ''S1''"
    by (simp add: sample_pool_def sample_server_def)
  have before: "map status (licenses (db sample_pool)) = [''ACTIVE'']"
    by (simp add: sample_pool_def sample_license_def)
  note w = expiry_instant_disagreement [OF k1 ne(1) s1 ne(2) sel act ex, of 501]
  from w have "member (fst (check reliable 500 (Some ''ABC123'') sample_pool)) ''active'' =
     Some (JBool False)"
    by blast
  moreover from w old
  have "http_status (fst (validate reliable 500 501 (sample_body ''S1'') sample_pool)) = 200 \<and>
    member (fst (validate reliable 500 501 (sample_body ''S1'') sample_pool)) ''valid'' =
      Some (JBool True)"
    by blast
  moreover from w before
  have "map status (licenses (db (snd (validate reliable 500 501 (sample_body ''S1'')
      sample_pool)))) = [''ACTIVE'']"
    by (simp del: member.simps)
  ultimately show ?thesis by blast
qed

text \<open>
  C10. With \<^verbatim>\<open>ADMIN_KEY\<close> unset and no \<^verbatim>\<open>x-admin-key\<close> header, none of the three
  administrator's handlers answers 401: each sends its statement to the database and
  answers 200 or 500. When the database carries the statement out, disable rewrites the
  rows of the key and create appends the new license.
\<close>

theorem unset_admin_key_admits_absent_header:
  "http_status (fst (admin_license_create outage None ts None body p)) \<in> {200, 500} \<and>
   issued p < issued (snd (admin_license_create outage None ts None body p)) \<and>
   http_status (fst (admin_license_disable outage None ts None key rsn p)) \<in> {200, 500} \<and>
   issued p < issued (snd (admin_license_disable outage None ts None key rsn p)) \<and>
   http_status (fst (admin_licenses outage None ts None p)) \<in> {200, 500} \<and>
   issued p < issued (snd (admin_licenses outage None ts None p)) \<and>
   (outage (issued p) = None \<longrightarrow>
      http_status (fst (admin_license_disable outage None ts None key rsn p)) = 200 \<and>
      licenses (db (snd (admin_license_disable outage None ts None key rsn p))) =
        map (\<lambda>l. if Some (license_key l) = key
                  then l\<lparr>status := ''DISABLED'',
                         reason := Some (or_else rsn Wylaczona_przez_admina)\<rparr>
                  else l) (licenses (db p))) \<and>
   (outage (issued p) = None \<and> new_license_key body = Some k \<and> new_owner body = Some ow \<and>
    k \<notin> set (map license_key (licenses (db p))) \<longrightarrow>
      http_status (fst (admin_license_create outage None ts None body p)) = 200 \<and>
      licenses (db (snd (admin_license_create outage None ts None body p))) =
        licenses (db p) @
          [\<lparr>license_key = k, owner = ow, email = new_email body, status = ''ACTIVE'',
            created_at = ts, expires_at = new_expires_at body,
            max_servers = or_one (new_max_servers body), last_check = None, reason = None\<rparr>])"
proof -
  have create: "http_status (fst (admin_license_create outage None ts None body p)) \<in> {200, 500}"
    "issued p < issued (snd (admin_license_create outage None ts None body p))"
    "outage (issued p) = None \<and> new_license_key body = Some k \<and> new_owner body = Some ow \<and>
     k \<notin> set (map license_key (licenses (db p))) \<longrightarrow>
      http_status (fst (admin_license_create outage None ts None body p)) = 200 \<and>
      licenses (db (snd (admin_license_create outage None ts None body p))) =
        licenses (db p) @
          [\<lparr>license_key = k, owner = ow, email = new_email body, status = ''ACTIVE'',
            created_at = ts, expires_at = new_expires_at body,
            max_servers = or_one (new_max_servers body), last_check = None, reason = None\<rparr>]"
    by (simp_all add: admin_license_create_def await_query_def pool_query_def Let_def
          insert_license_def logAction_tables server_failure_def res_json_def
          res_status_json_def split: option.split)
  have disable: "http_status (fst (admin_license_disable outage None ts None key rsn p)) \<in> {200, 500}"
    "issued p < issued (snd (admin_license_disable outage None ts None key rsn p))"
    "outage (issued p) = None \<longrightarrow>
      http_status (fst (admin_license_disable outage None ts None key rsn p)) = 200 \<and>
      licenses (db (snd (admin_license_disable outage None ts None key rsn p))) =
        map (\<lambda>l. if Some (license_key l) = key
                  then l\<lparr>status := ''DISABLED'',
                         reason := Some (or_else rsn Wylaczona_przez_admina)\<rparr>
                  else l) (licenses (db p))"
    by (simp_all add: disable_authorised logAction_tables server_failure_def res_json_def
          res_status_json_def split: option.split)
  have list: "http_status (fst (admin_licenses outage None ts None p)) \<in> {200, 500}"
    "issued p < issued (snd (admin_licenses outage None ts None p))"
    by (simp_all add: admin_licenses_def await_query_def pool_query_def Let_def
          select_licenses_def server_failure_def res_json_def res_status_json_def
          split: option.split)
  from create disable list show ?thesis by blast
qed

theorem unset_admin_key_admits_absent_header_witness:
  "http_status (fst (admin_license_disable reliable None 300 None (Some ''ABC123'') None
      sample_pool)) = 200 \<and>
   map status (licenses (db (snd (admin_license_disable reliable None 300 None (Some ''ABC123'')
      None sample_pool)))) = [''DISABLED''] \<and>
   http_status (fst (admin_license_create reliable None 300 None sample_create sample_pool)) = 200 \<and>
   map license_key (licenses (db (snd (admin_license_create reliable None 300 None sample_create
      sample_pool)))) = [''ABC123'', ''XYZ789'']"
proof -
  have up: "reliable (issued sample_pool) = None"
    by (simp add: reliable_def)
  have body: "new_license_key sample_create = Some ''XYZ789''" "new_owner sample_create = Some ''Bob''"
    by (simp_all add: sample_create_def)
  have fresh: "''XYZ789'' \<notin> set (map license_key (licenses (db sample_pool)))"
    by (simp add: sample_pool_def sample_license_def)
  have before: "licenses (db sample_pool) = [sample_license]"
    "license_key sample_license = ''ABC123''"
    by (simp_all add: sample_pool_def sample_license_def)
  from unset_admin_key_admits_absent_header [of reliable 300 sample_create sample_pool
      "Some ''ABC123''" None "''XYZ789''" "''Bob''"] up body fresh
  have "http_status (fst (admin_license_disable reliable None 300 None (Some ''ABC123'') None
      sample_pool)) = 200"
    and "licenses (db (snd (admin_license_disable reliable None 300 None (Some ''ABC123'') None
      sample_pool))) =
        map (\<lambda>l. if Some (license_key l) = Some ''ABC123''
                  then l\<lparr>status := ''DISABLED'',
                         reason := Some (or_else None Wylaczona_przez_admina)\<rparr>
                  else l) (licenses (db sample_pool))"
    and "http_status (fst (admin_license_create reliable None 300 None sample_create sample_pool)) = 200"
    and "licenses (db (snd (admin_license_create reliable None 300 None sample_create sample_pool))) =
        licenses (db sample_pool) @
          [\<lparr>license_key = ''XYZ789'', owner = ''Bob'', email = new_email sample_create,
            status = ''ACTIVE'', created_at = 300, expires_at = new_expires_at sample_create,
            max_servers = or_one (new_max_servers sample_create), last_check = None,
            reason = None\<rparr>]"
    by blast+
  then show ?thesis
    by (simp add: before)
qed

end
